theory Spec2Isabelle
  imports Main "HOL-Library.Word"
begin

unbundle bit_operations_syntax

section \<open>Common data\<close>

type_synonym byte = "8 word"

text \<open>
  Go \<open>error\<close> values. \<open>Errno\<close> is a \<open>syscall.Errno\<close>; the next six are the errors the
  sources build themselves (\<open>errors.New\<close>, \<open>fmt.Errorf\<close>), kept structured instead of
  formatted; \<open>LibError\<close> is any error of a library outside the sources (\<open>net\<close>, \<open>os\<close>,
  \<open>rwcancel\<close>, a \<open>Bind\<close> implementation).
\<close>

datatype error =
    Errno nat
  | NameTooLong
  | AlreadyExists string
  | IoctlFailed nat
  | RenameFailed string string nat
  | SetMTUFailed string
  | DeviceClosed
  | LibError string

text \<open>
  Constants of \<open>golang.org/x/sys/unix\<close>, \<open>syscall\<close>, \<open>net\<close> and \<open>golang.org/x/net/ipv6\<close>
  that the sources name but do not declare. Every function takes them as a parameter;
  \<open>dragonfly_amd64\<close> holds the values of the one platform the file is built for.
\<close>

record platform =
  IFNAMSIZ :: nat
  AF_INET :: byte
  AF_INET6 :: byte
  ipv6_Version :: byte
  RTM_IFINFO :: byte
  EINTR :: nat
  EAGAIN :: nat
  FlagUp :: "64 word"

definition dragonfly_amd64 :: platform where
  "dragonfly_amd64 =
     \<lparr>IFNAMSIZ = 16, AF_INET = 2, AF_INET6 = 28, ipv6_Version = 6,
      RTM_IFINFO = 14, EINTR = 4, EAGAIN = 35, FlagUp = 1\<rparr>"

section \<open>conn.go: the device's bind\<close>

text \<open>
  A \<open>Bind\<close> is an interface value; the model names an implementation by a number.
  What its methods and \<open>Networking.CreateBind\<close> answer is not in the sources: the
  record \<open>network\<close> gives the answer of each call, as a function of the calls made so
  far. The calls themselves are logged, in order.
\<close>

type_synonym bind = nat

datatype net_call =
    CallBindClose bind
  | CallCreateBind "16 word"
  | CallSetMark bind "32 word"
  | GoRoutineReceiveIncoming nat bind
  | LogDebug string

record network =
  bind_Close :: "net_call list \<Rightarrow> bind \<Rightarrow> error option"
  net_CreateBind :: "net_call list \<Rightarrow> 16 word \<Rightarrow> error + bind \<times> 16 word"
  bind_SetMark :: "net_call list \<Rightarrow> bind \<Rightarrow> 32 word \<Rightarrow> error option"

text \<open>
  \<open>Peer\<close> with the one field \<open>BindUpdate\<close> touches. The endpoint type \<open>'e\<close> and its method
  \<open>ClearSrc\<close> belong to the \<open>Endpoint\<close> implementation, which is a parameter.
  \<open>device.peers.keyMap\<close> is a Go map; the loop over it visits each entry once, in an
  order the language leaves open, and the entries are independent: an association list.
\<close>

record 'e peer =
  endpoint :: "'e option"

record ('k, 'e) device =
  net_bind :: "bind option"
  net_port :: "16 word"
  net_fwmark :: "32 word"
  isUp :: bool
  peers_keyMap :: "('k \<times> 'e peer) list"

type_synonym ('k, 'e) bind_result = "error option \<times> ('k, 'e) device \<times> net_call list"

definition unsafeCloseBind ::
  "network \<Rightarrow> ('k, 'e) device \<Rightarrow> net_call list \<Rightarrow> ('k, 'e) bind_result" where
  "unsafeCloseBind nw device tr =
     (case net_bind device of
        None \<Rightarrow> (None, device, tr)
      | Some b \<Rightarrow> (bind_Close nw tr b, device\<lparr>net_bind := None\<rparr>, tr @ [CallBindClose b]))"

definition BindSetMark ::
  "network \<Rightarrow> 32 word \<Rightarrow> ('k, 'e) device \<Rightarrow> net_call list \<Rightarrow> ('k, 'e) bind_result" where
  "BindSetMark nw mark device tr =
     (if net_fwmark device = mark then (None, device, tr)
      else
        let device1 = device\<lparr>net_fwmark := mark\<rparr> in
        if isUp device1 then
          (case net_bind device1 of
             Some b \<Rightarrow> (bind_SetMark nw tr b mark, device1, tr @ [CallSetMark b mark])
           | None \<Rightarrow> (None, device1, tr))
        else (None, device1, tr))"

definition clearPeer :: "('e \<Rightarrow> 'e) \<Rightarrow> 'e peer \<Rightarrow> 'e peer" where
  "clearPeer ClearSrc p =
     (case endpoint p of
        None \<Rightarrow> p
      | Some e \<Rightarrow> p\<lparr>endpoint := Some (ClearSrc e)\<rparr>)"

definition clearPeers :: "('e \<Rightarrow> 'e) \<Rightarrow> ('k \<times> 'e peer) list \<Rightarrow> ('k \<times> 'e peer) list" where
  "clearPeers ClearSrc keyMap = map (\<lambda>(k, p). (k, clearPeer ClearSrc p)) keyMap"

text \<open>The part of \<open>BindUpdate\<close> after the fwmark has been set: it cannot fail.\<close>

definition finishBindUpdate ::
  "('e \<Rightarrow> 'e) \<Rightarrow> bind \<Rightarrow> ('k, 'e) device \<Rightarrow> net_call list \<Rightarrow> ('k, 'e) bind_result" where
  "finishBindUpdate ClearSrc b device tr =
     (None,
      device\<lparr>peers_keyMap := clearPeers ClearSrc (peers_keyMap device)\<rparr>,
      tr @ [GoRoutineReceiveIncoming 4 b, GoRoutineReceiveIncoming 6 b,
            LogDebug ''UDP bind has been updated''])"

definition BindUpdate ::
  "network \<Rightarrow> ('e \<Rightarrow> 'e) \<Rightarrow> ('k, 'e) device \<Rightarrow> net_call list \<Rightarrow> ('k, 'e) bind_result" where
  "BindUpdate nw ClearSrc device tr =
     (case unsafeCloseBind nw device tr of
        (Some err, device1, tr1) \<Rightarrow> (Some err, device1, tr1)
      | (None, device1, tr1) \<Rightarrow>
          if isUp device1 then
            (case net_CreateBind nw tr1 (net_port device1) of
               Inl err \<Rightarrow>
                 (Some err, device1\<lparr>net_bind := None, net_port := 0\<rparr>,
                  tr1 @ [CallCreateBind (net_port device1)])
             | Inr (b, p) \<Rightarrow>
                 let device2 = device1\<lparr>net_bind := Some b, net_port := p\<rparr>;
                     tr2 = tr1 @ [CallCreateBind (net_port device1)]
                 in
                 if net_fwmark device2 \<noteq> 0 then
                   (case bind_SetMark nw tr2 b (net_fwmark device2) of
                      Some err \<Rightarrow> (Some err, device2, tr2 @ [CallSetMark b (net_fwmark device2)])
                    | None \<Rightarrow>
                        finishBindUpdate ClearSrc b device2
                          (tr2 @ [CallSetMark b (net_fwmark device2)]))
                 else finishBindUpdate ClearSrc b device2 tr2)
          else (None, device1, tr1))"

definition BindClose ::
  "network \<Rightarrow> ('k, 'e) device \<Rightarrow> net_call list \<Rightarrow> ('k, 'e) bind_result" where
  "BindClose nw device tr = unsafeCloseBind nw device tr"

text \<open>How often the socket mark was updated, in a log.\<close>

fun is_SetMark :: "net_call \<Rightarrow> bool" where
  "is_SetMark (CallSetMark b m) = True"
| "is_SetMark c = False"

definition mark_updates :: "net_call list \<Rightarrow> nat" where
  "mark_updates tr = length (filter is_SetMark tr)"

section \<open>tun_dragonfly.go: packet transport\<close>

text \<open>
  A call either returns or does not: \<open>Panic\<close> is a Go run-time panic (index or slice
  bounds out of range, close of a closed channel, nil dereference), \<open>Blocked\<close> a call
  that waits for an answer the environment never gives.
\<close>

datatype abort = Panic | Blocked

text \<open>
  The part of \<open>nativeTun\<close> that \<open>Read\<close> and \<open>Write\<close> use. \<open>errors_chan\<close> is the channel
  \<open>tun.errors\<close> (capacity 1): the error waiting in it, if any. \<open>fd_reads\<close> are the answers
  of the coming \<open>tun.fd.Read\<close> calls (the bytes delivered and the error), \<open>fd_write\<close>
  the answer of \<open>tun.fd.Write\<close> to a frame, \<open>fd_written\<close> the frames handed to it so far.
  The route listener, which fills \<open>tun.errors\<close>, runs beside the caller: a call sees the
  channel as it is when the call is made.
\<close>

record tun_io =
  errors_chan :: "error option"
  fd_reads :: "(byte list \<times> error option) list"
  fd_write :: "byte list \<Rightarrow> int \<times> error option"
  fd_written :: "byte list list"

type_synonym io_result = "abort + (int \<times> error option) \<times> byte list \<times> tun_io"

text \<open>
  Go's \<open>buff[lo:]\<close>, \<open>buff[i] = v\<close> and \<open>buff[i]\<close>, with their bounds checks. An offset is
  a Go \<open>int\<close> of 64 bits, here an \<open>int\<close>: \<open>offset - 4\<close> wraps around only for an offset
  below \<open>-2^63 + 4\<close>, to a value above every length, and the slice panics as it does for
  the negative bound computed here.
\<close>

definition slice_from :: "'a list \<Rightarrow> int \<Rightarrow> abort + 'a list" where
  "slice_from buff lo =
     (if lo < 0 \<or> int (length buff) < lo then Inl Panic else Inr (drop (nat lo) buff))"

definition store :: "'a list \<Rightarrow> nat \<Rightarrow> 'a \<Rightarrow> abort + 'a list" where
  "store buff i v = (if i < length buff then Inr (buff[i := v]) else Inl Panic)"

definition load :: "'a list \<Rightarrow> nat \<Rightarrow> abort + 'a" where
  "load buff i = (if i < length buff then Inr (buff ! i) else Inl Panic)"

text \<open>
  \<open>doRead\<close>. The slice \<open>buff[offset-4:]\<close> shares the caller's array: the third component
  of the result is the caller's buffer after the call. A read delivers at most as many
  bytes as the slice holds.
\<close>

definition doRead :: "tun_io \<Rightarrow> byte list \<Rightarrow> int \<Rightarrow> io_result" where
  "doRead tun buff offset =
     (case errors_chan tun of
        Some err \<Rightarrow> Inr ((0, Some err), buff, tun\<lparr>errors_chan := None\<rparr>)
      | None \<Rightarrow>
          (case slice_from buff (offset - 4) of
             Inl a \<Rightarrow> Inl a
           | Inr b \<Rightarrow>
               (case fd_reads tun of
                  [] \<Rightarrow> Inl Blocked
                | (data, err) # rest \<Rightarrow>
                    let got = take (length b) data;
                        n = int (length got);
                        buff' = take (nat (offset - 4)) buff @ got @ drop (length got) b;
                        tun' = tun\<lparr>fd_reads := rest\<rparr>
                    in
                    if n < 4 then Inr ((0, err), buff', tun')
                    else Inr ((n - 4, err), buff', tun'))))"

text \<open>
  \<open>Read\<close>. \<open>rwcancel.RetryAfterError\<close> is the parameter \<open>retry\<close>; the list holds the
  answers of the coming \<open>tun.rwcancel.ReadyRead\<close> calls, and what is left of it is
  returned. Every turn of the loop that meets a retry condition uses one of them.
\<close>

function Read ::
  "(error \<Rightarrow> bool) \<Rightarrow> bool list \<Rightarrow> tun_io \<Rightarrow> byte list \<Rightarrow> int
     \<Rightarrow> abort + ((int \<times> error option) \<times> byte list \<times> tun_io) \<times> bool list" where
  "Read retry readys tun buff offset =
     (case doRead tun buff offset of
        Inl a \<Rightarrow> Inl a
      | Inr ((n, err), buff', tun') \<Rightarrow>
          (case err of
             None \<Rightarrow> Inr (((n, err), buff', tun'), readys)
           | Some e \<Rightarrow>
               if \<not> retry e then Inr (((n, err), buff', tun'), readys)
               else
                 (case readys of
                    [] \<Rightarrow> Inl Blocked
                  | ready # rest \<Rightarrow>
                      if \<not> ready then Inr (((0, Some DeviceClosed), buff', tun'), rest)
                      else Read retry rest tun' buff' offset)))"
  by pat_completeness auto
termination
  by (relation "measure (\<lambda>(retry, readys, tun, buff, offset). length readys)") auto

text \<open>\<open>Write\<close>. The frame handed to \<open>tun.fd.Write\<close> is the slice \<open>buff[offset-4:]\<close>.\<close>

definition Write :: "platform \<Rightarrow> tun_io \<Rightarrow> byte list \<Rightarrow> int \<Rightarrow> io_result" where
  "Write pf tun buff offset =
     (case slice_from buff (offset - 4) of
        Inl a \<Rightarrow> Inl a
      | Inr b \<Rightarrow>
     (case store b 0 0 of
        Inl a \<Rightarrow> Inl a
      | Inr b0 \<Rightarrow>
     (case store b0 1 0 of
        Inl a \<Rightarrow> Inl a
      | Inr b1 \<Rightarrow>
     (case store b1 2 0 of
        Inl a \<Rightarrow> Inl a
      | Inr b2 \<Rightarrow>
     (case load b2 4 of
        Inl a \<Rightarrow> Inl a
      | Inr v \<Rightarrow>
     (case store b2 3
             (if drop_bit 4 v = ipv6_Version pf then AF_INET6 pf else AF_INET pf) of
        Inl a \<Rightarrow> Inl a
      | Inr frame \<Rightarrow>
          Inr (fd_write tun frame,
               take (nat (offset - 4)) buff @ frame,
               tun\<lparr>fd_written := fd_written tun @ [frame]\<rparr>)))))))"

section \<open>tun_dragonfly.go: the route listener\<close>

datatype TUNEvent = TUNEventUp | TUNEventDown | TUNEventMTUUpdate

text \<open>\<open>net.Interface\<close>.\<close>

record iface =
  if_Index :: int
  if_MTU :: int
  if_Name :: string
  if_Flags :: "64 word"

text \<open>
  One turn of the listener's loop, as the environment answers it: \<open>rr_read\<close> is what
  \<open>unix.Read(tun.routeSocket, data)\<close> returns (an error, or the \<open>n\<close> bytes it stored at
  the start of \<open>data\<close>), \<open>rr_lookup\<close> what \<open>net.InterfaceByIndex\<close> answers when the turn
  gets that far.
\<close>

record route_round =
  rr_read :: "error + byte list"
  rr_lookup :: "error + iface"

text \<open>
  How the listener ends on a finite list of turns: still waiting in \<open>unix.Read\<close>, with
  its \<open>statusUp\<close> and \<open>statusMTU\<close>, or stopped, the error sent to \<open>tun.errors\<close> and
  \<open>tun.events\<close> closed.
\<close>

datatype listener_end = Waiting bool int | Stopped error

text \<open>
  The 16-bit interface index at \<open>data[12]\<close>, read through a \<open>uint16\<close> pointer: amd64 is
  little-endian.
\<close>

definition msg_ifindex :: "byte list \<Rightarrow> int" where
  "msg_ifindex data = int (unat (data ! 12)) + 256 * int (unat (data ! 13))"

definition transition_events :: "bool \<Rightarrow> int \<Rightarrow> bool \<Rightarrow> int \<Rightarrow> TUNEvent list" where
  "transition_events statusUp statusMTU up mtu =
     (if up \<noteq> statusUp \<and> up then [TUNEventUp] else []) @
     (if up \<noteq> statusUp \<and> \<not> up then [TUNEventDown] else []) @
     (if mtu \<noteq> statusMTU then [TUNEventMTUUpdate] else [])"

fun route_loop ::
  "platform \<Rightarrow> int \<Rightarrow> bool \<Rightarrow> int \<Rightarrow> route_round list \<Rightarrow> TUNEvent list \<times> listener_end" where
  "route_loop pf tunIfindex statusUp statusMTU [] = ([], Waiting statusUp statusMTU)"
| "route_loop pf tunIfindex statusUp statusMTU (r # rs) =
     (case rr_read r of
        Inl err \<Rightarrow>
          if err = Errno (EINTR pf) then route_loop pf tunIfindex statusUp statusMTU rs
          else ([], Stopped err)
      | Inr data \<Rightarrow>
          if length data < 14 then route_loop pf tunIfindex statusUp statusMTU rs
          else if data ! 3 \<noteq> RTM_IFINFO pf then route_loop pf tunIfindex statusUp statusMTU rs
          else if msg_ifindex data \<noteq> tunIfindex then
            route_loop pf tunIfindex statusUp statusMTU rs
          else
            (case rr_lookup r of
               Inl err \<Rightarrow> ([], Stopped err)
             | Inr iface \<Rightarrow>
                 let up = (if_Flags iface AND FlagUp pf \<noteq> 0);
                     (evs, fin) = route_loop pf tunIfindex up (if_MTU iface) rs
                 in (transition_events statusUp statusMTU up (if_MTU iface) @ evs, fin)))"

definition routineRouteListener ::
  "platform \<Rightarrow> int \<Rightarrow> route_round list \<Rightarrow> TUNEvent list \<times> listener_end" where
  "routineRouteListener pf tunIfindex rounds = route_loop pf tunIfindex False 0 rounds"

section \<open>tun_dragonfly.go: creating and closing the device\<close>

text \<open>
  The operating system. A descriptor, and an \<open>*os.File\<close> through its descriptor, is an
  \<open>int\<close>. Each call the sources make is logged, in order; \<open>kernel\<close> gives the answer of
  each call as a function of the calls logged before it, so the same call can be answered
  differently the second time. The function \<open>tunName\<close> (it asks for the name the kernel
  gave the interface behind a descriptor, through a control socket of its own) is taken as
  one call: nothing below depends on how it finds the name, and it never closes the
  descriptor it is given.
\<close>

type_synonym fd = int

datatype sock_kind = ControlSocket | RouteSocket

datatype ioctl_req =
    TUNSIFHEAD
  | TUNSIFMODE
  | SIOCSIFNAME string string
  | SIOCSIFMTU string "32 word"

datatype sys_call =
    SysInterfaceByName string
  | SysOpenFile string "error + fd"
  | SysFileClose fd
  | SysTunName fd
  | SysIoctl fd ioctl_req
  | SysSocket sock_kind "error + fd"
  | SysClose fd
  | SysShutdown fd
  | SysNewRWCancel fd
  | SysCancel fd
  | GoRouteListener int
  | CloseEvents

record kernel =
  k_InterfaceByName :: "sys_call list \<Rightarrow> string \<Rightarrow> error + iface"
  k_OpenFile :: "sys_call list \<Rightarrow> string \<Rightarrow> error + fd"
  k_FileClose :: "sys_call list \<Rightarrow> fd \<Rightarrow> error option"
  k_tunName :: "sys_call list \<Rightarrow> fd \<Rightarrow> error + string"
  k_ioctl :: "sys_call list \<Rightarrow> fd \<Rightarrow> ioctl_req \<Rightarrow> nat"
  k_Socket :: "sys_call list \<Rightarrow> sock_kind \<Rightarrow> error + fd"
  k_Close :: "sys_call list \<Rightarrow> fd \<Rightarrow> error option"
  k_NewRWCancel :: "sys_call list \<Rightarrow> fd \<Rightarrow> error option"
  k_Cancel :: "sys_call list \<Rightarrow> fd \<Rightarrow> error option"

text \<open>
  \<open>nativeTun\<close>. \<open>tun_rwcancel\<close> is \<open>None\<close> for a nil pointer, else the descriptor the
  \<open>RWCancel\<close> wraps; \<open>tun_events\<close> is \<open>None\<close> for a nil channel, else whether the channel
  has been closed; \<open>tun_errors\<close> is the error waiting in the channel of capacity 1.
\<close>

record nativeTun =
  tun_name :: string
  tun_origName :: string
  tun_fd :: fd
  tun_rwcancel :: "fd option"
  tun_events :: "bool option"
  tun_errors :: "error option"
  tun_routeSocket :: int

text \<open>\<open>fmt.Sprintf("%d", i)\<close> for \<open>i \<ge> 0\<close>.\<close>

fun decimal :: "nat \<Rightarrow> string" where
  "decimal n =
     (if n < 10 then [char_of (48 + n)]
      else decimal (n div 10) @ [char_of (48 + n mod 10)])"

declare decimal.simps [simp del]

text \<open>
  \<open>renameTun\<close>. \<open>copy\<close> into the \<open>IFNAMSIZ\<close>-byte arrays cuts both names; the control
  socket is closed by a \<open>defer\<close>, whatever the ioctl answers.
\<close>

definition renameTun ::
  "kernel \<Rightarrow> platform \<Rightarrow> string \<Rightarrow> string \<Rightarrow> sys_call list \<Rightarrow> error option \<times> sys_call list" where
  "renameTun k pf oldName newName tr =
     (case k_Socket k tr ControlSocket of
        Inl err \<Rightarrow> (Some err, tr @ [SysSocket ControlSocket (Inl err)])
      | Inr confd \<Rightarrow>
          let tr1 = tr @ [SysSocket ControlSocket (Inr confd)];
              req = SIOCSIFNAME (take (IFNAMSIZ pf) oldName) (take (IFNAMSIZ pf) newName);
              errno = k_ioctl k tr1 confd req;
              tr2 = tr1 @ [SysIoctl confd req, SysClose confd]
          in
          if errno \<noteq> 0 then (Some (RenameFailed oldName newName errno), tr2)
          else (None, tr2))"

definition setMTU ::
  "kernel \<Rightarrow> platform \<Rightarrow> nativeTun \<Rightarrow> int \<Rightarrow> sys_call list \<Rightarrow> error option \<times> sys_call list" where
  "setMTU k pf tun n tr =
     (case k_Socket k tr ControlSocket of
        Inl err \<Rightarrow> (Some err, tr @ [SysSocket ControlSocket (Inl err)])
      | Inr fd \<Rightarrow>
          let tr1 = tr @ [SysSocket ControlSocket (Inr fd)];
              req = SIOCSIFMTU (take (IFNAMSIZ pf) (tun_name tun)) (word_of_int n);
              errno = k_ioctl k tr1 fd req;
              tr2 = tr1 @ [SysIoctl fd req, SysClose fd]
          in
          if errno \<noteq> 0 then (Some (SetMTUFailed (tun_name tun)), tr2)
          else (None, tr2))"

text \<open>The three \<open>if\<close>s that end \<open>Close\<close>.\<close>

definition close_result :: "error option \<Rightarrow> error option \<Rightarrow> error option \<Rightarrow> error option" where
  "close_result err1 err2 err4 =
     (if err1 \<noteq> None then err1 else if err2 \<noteq> None then err2 else err4)"

definition Close ::
  "kernel \<Rightarrow> platform \<Rightarrow> nativeTun \<Rightarrow> sys_call list
     \<Rightarrow> abort + error option \<times> nativeTun \<times> sys_call list" where
  "Close k pf tun tr =
     (let (err4, tr1) =
            (if tun_name tun \<noteq> tun_origName tun
             then renameTun k pf (tun_name tun) (tun_origName tun) tr
             else (None, tr));
          err2 = k_FileClose k tr1 (tun_fd tun);
          tr2 = tr1 @ [SysFileClose (tun_fd tun)]
      in
      case tun_rwcancel tun of
        None \<Rightarrow> Inl Panic
      | Some rw \<Rightarrow>
          let err1 = k_Cancel k tr2 rw;
              tr3 = tr2 @ [SysCancel rw]
          in
          if tun_routeSocket tun \<noteq> - 1 then
            let tr4 = tr3 @ [SysShutdown (tun_routeSocket tun)];
                err4 = k_Close k tr4 (tun_routeSocket tun);
                tr5 = tr4 @ [SysClose (tun_routeSocket tun)]
            in Inr (close_result err1 err2 err4, tun\<lparr>tun_routeSocket := - 1\<rparr>, tr5)
          else
            (case tun_events tun of
               None \<Rightarrow> Inr (close_result err1 err2 err4, tun, tr3)
             | Some closed \<Rightarrow>
                 if closed then Inl Panic
                 else Inr (close_result err1 err2 err4, tun\<lparr>tun_events := Some True\<rparr>,
                           tr3 @ [CloseEvents])))"

text \<open>\<open>Name\<close>: the name is stored in the handle when \<open>tunName\<close> gives one.\<close>

definition Name ::
  "kernel \<Rightarrow> nativeTun \<Rightarrow> sys_call list \<Rightarrow> (error + string) \<times> nativeTun \<times> sys_call list" where
  "Name k tun tr =
     (case k_tunName k tr (tun_fd tun) of
        Inl err \<Rightarrow> (Inl err, tun, tr @ [SysTunName (tun_fd tun)])
      | Inr name \<Rightarrow> (Inr name, tun\<lparr>tun_name := name\<rparr>, tr @ [SysTunName (tun_fd tun)]))"

type_synonym create_result = "abort + (error + nativeTun) \<times> sys_call list"

definition CreateTUNFromFile ::
  "kernel \<Rightarrow> platform \<Rightarrow> fd \<Rightarrow> int \<Rightarrow> sys_call list \<Rightarrow> create_result" where
  "CreateTUNFromFile k pf file mtu tr =
     (let tun0 = \<lparr>tun_name = [], tun_origName = [], tun_fd = file, tun_rwcancel = None,
                  tun_events = Some False, tun_errors = None, tun_routeSocket = 0\<rparr>
      in
      case Name k tun0 tr of
        (Inl err, tun1, tr1) \<Rightarrow> Inr (Inl err, tr1 @ [SysFileClose file])
      | (Inr name, tun1, tr1) \<Rightarrow>
          let tun2 = tun1\<lparr>tun_origName := name\<rparr> in
          (case k_InterfaceByName k tr1 name of
             Inl err \<Rightarrow> Inr (Inl err, tr1 @ [SysInterfaceByName name, SysFileClose file])
           | Inr iface \<Rightarrow>
               let tunIfindex = if_Index iface;
                   tr2 = tr1 @ [SysInterfaceByName name]
               in
               (case k_NewRWCancel k tr2 file of
                  Some err \<Rightarrow> Inr (Inl err, tr2 @ [SysNewRWCancel file, SysFileClose file])
                | None \<Rightarrow>
                    let tun3 = tun2\<lparr>tun_rwcancel := Some file\<rparr>;
                        tr3 = tr2 @ [SysNewRWCancel file]
                    in
                    (case k_Socket k tr3 RouteSocket of
                       Inl err \<Rightarrow>
                         Inr (Inl err, tr3 @ [SysSocket RouteSocket (Inl err), SysFileClose file])
                     | Inr sock \<Rightarrow>
                         let tun4 = tun3\<lparr>tun_routeSocket := sock\<rparr>;
                             tr4 = tr3 @ [SysSocket RouteSocket (Inr sock), GoRouteListener tunIfindex]
                         in
                         (case setMTU k pf tun4 mtu tr4 of
                            (Some err, tr5) \<Rightarrow>
                              (case Close k pf tun4 tr5 of
                                 Inl a \<Rightarrow> Inl a
                               | Inr (cerr, tun5, tr6) \<Rightarrow> Inr (Inl err, tr6))
                          | (None, tr5) \<Rightarrow> Inr (Inr tun4, tr5))))))"

text \<open>
  The loop of \<open>CreateTUN\<close> over \<open>/dev/tun0\<close> to \<open>/dev/tun98\<close>: the file opened, if any, and
  the log.
\<close>

function probe :: "kernel \<Rightarrow> nat \<Rightarrow> sys_call list \<Rightarrow> fd option \<times> sys_call list" where
  "probe k i tr =
     (if i < 99 then
        (case k_OpenFile k tr (''/dev/tun'' @ decimal i) of
           Inr f \<Rightarrow> (Some f, tr @ [SysOpenFile (''/dev/tun'' @ decimal i) (Inr f)])
         | Inl err \<Rightarrow> probe k (Suc i) (tr @ [SysOpenFile (''/dev/tun'' @ decimal i) (Inl err)]))
      else (None, tr))"
  by pat_completeness auto
termination
  by (relation "measure (\<lambda>(k, i, tr). 99 - i)") auto

declare probe.simps [simp del]

text \<open>\<open>CreateTUN\<close> from the point where \<open>tunfile\<close> is open.\<close>

definition CreateTUN_opened ::
  "kernel \<Rightarrow> platform \<Rightarrow> string \<Rightarrow> int \<Rightarrow> fd \<Rightarrow> sys_call list \<Rightarrow> create_result" where
  "CreateTUN_opened k pf name mtu tunfile tr =
     (case k_tunName k tr tunfile of
        Inl err \<Rightarrow> Inr (Inl err, tr @ [SysTunName tunfile, SysFileClose tunfile])
      | Inr assignedName \<Rightarrow>
          let tr1 = tr @ [SysTunName tunfile];
              errno = k_ioctl k tr1 tunfile TUNSIFHEAD;
              tr2 = tr1 @ [SysIoctl tunfile TUNSIFHEAD]
          in
          if errno \<noteq> 0 then Inr (Inl (IoctlFailed errno), tr2)
          else
            let errno = k_ioctl k tr2 tunfile TUNSIFMODE;
                tr3 = tr2 @ [SysIoctl tunfile TUNSIFMODE]
            in
            if errno \<noteq> 0 then Inr (Inl (IoctlFailed errno), tr3)
            else
              (case renameTun k pf assignedName name tr3 of
                 (Some err, tr4) \<Rightarrow> Inr (Inl err, tr4 @ [SysFileClose tunfile])
               | (None, tr4) \<Rightarrow>
                   (case CreateTUNFromFile k pf tunfile mtu tr4 of
                      Inl a \<Rightarrow> Inl a
                    | Inr (Inl err, tr5) \<Rightarrow> Inr (Inl err, tr5 @ [SysFileClose tunfile])
                    | Inr (Inr natTun, tr5) \<Rightarrow>
                        Inr (Inr (natTun\<lparr>tun_origName := assignedName\<rparr>), tr5))))"

definition CreateTUN ::
  "kernel \<Rightarrow> platform \<Rightarrow> string \<Rightarrow> int \<Rightarrow> sys_call list \<Rightarrow> create_result" where
  "CreateTUN k pf name mtu tr =
     (if int (length name) > int (IFNAMSIZ pf) - 1 then Inr (Inl NameTooLong, tr)
      else
        (case k_InterfaceByName k tr name of
           Inr iface \<Rightarrow> Inr (Inl (AlreadyExists name), tr @ [SysInterfaceByName name])
         | Inl lookup_err \<Rightarrow>
             (case probe k 0 (tr @ [SysInterfaceByName name]) of
                (Some tunfile, tr1) \<Rightarrow> CreateTUN_opened k pf name mtu tunfile tr1
              | (None, tr1) \<Rightarrow>
                  (case k_OpenFile k tr1 ''/dev/tun'' of
                     Inl err \<Rightarrow> Inr (Inl err, tr1 @ [SysOpenFile ''/dev/tun'' (Inl err)])
                   | Inr tunfile \<Rightarrow>
                       CreateTUN_opened k pf name mtu tunfile
                         (tr1 @ [SysOpenFile ''/dev/tun'' (Inr tunfile)])))))"

text \<open>
  Whether the descriptor \<open>f\<close> is open at the end of a log: opened, and not closed
  since.
\<close>

fun after_call :: "fd \<Rightarrow> bool \<Rightarrow> sys_call \<Rightarrow> bool" where
  "after_call f is_open (SysOpenFile path (Inr g)) = (if g = f then True else is_open)"
| "after_call f is_open (SysFileClose g) = (if g = f then False else is_open)"
| "after_call f is_open c = is_open"

definition left_open :: "sys_call list \<Rightarrow> fd \<Rightarrow> bool" where
  "left_open tr f = foldl (after_call f) False tr"

section \<open>Concrete inputs\<close>

text \<open>A network whose calls all succeed, one where no socket can be bound, and one
  whose binds refuse the mark.\<close>

definition network_ok :: network where
  "network_ok =
     \<lparr>bind_Close = (\<lambda>tr b. None),
      net_CreateBind = (\<lambda>tr p. Inr (7, if p = 0 then 40000 else p)),
      bind_SetMark = (\<lambda>tr b m. None)\<rparr>"

definition network_no_bind :: network where
  "network_no_bind =
     network_ok\<lparr>net_CreateBind := (\<lambda>tr p. Inl (LibError ''address already in use''))\<rparr>"

definition network_no_mark :: network where
  "network_no_mark =
     network_ok\<lparr>bind_SetMark := (\<lambda>tr b m. Some (LibError ''operation not permitted''))\<rparr>"

text \<open>
  A device that is up, bound by bind 3 to port 51820, with two peers: one with an
  endpoint, one without. The endpoint is a counter of the \<open>ClearSrc\<close> calls it has seen,
  and \<open>ClearSrc\<close> is \<open>Suc\<close>.
\<close>

definition device_up :: "(nat, nat) device" where
  "device_up =
     \<lparr>net_bind = Some 3, net_port = 51820, net_fwmark = 0, isUp = True,
      peers_keyMap = [(1, \<lparr>endpoint = Some 0\<rparr>), (2, \<lparr>endpoint = None\<rparr>)]\<rparr>"


definition device_marked :: "(nat, nat) device" where
  "device_marked = device_up\<lparr>net_fwmark := 5\<rparr>"

text \<open>
  Modelled from the spec: \<open>rwcancel.RetryAfterError\<close> is not among the sources; the spec
  calls what it recognises a "retry" condition of the underlying error. The examples
  take the errnos \<open>EAGAIN\<close> and \<open>EINTR\<close> for it.
\<close>

definition RetryAfterError :: "platform \<Rightarrow> error \<Rightarrow> bool" where
  "RetryAfterError pf err = (err = Errno (EAGAIN pf) \<or> err = Errno (EINTR pf))"

text \<open>Handles for \<open>Read\<close> and \<open>Write\<close>: the device answers a write with the frame's length.\<close>

definition tun_idle :: tun_io where
  "tun_idle =
     \<lparr>errors_chan = None, fd_reads = [],
      fd_write = (\<lambda>frame. (int (length frame), None)), fd_written = []\<rparr>"

definition tun_failed :: tun_io where
  "tun_failed = tun_idle\<lparr>errors_chan := Some (LibError ''route ip+net: no such network interface'')\<rparr>"

definition tun_packet :: tun_io where
  "tun_packet = tun_idle\<lparr>fd_reads := [([0, 0, 0, 2, 69, 0], None)]\<rparr>"

definition tun_again :: tun_io where
  "tun_again = tun_idle\<lparr>fd_reads := [([], Some (Errno 35))]\<rparr>"

definition buffer8 :: "byte list" where
  "buffer8 = [9, 9, 9, 9, 9, 9, 9, 9]"

definition packet6 :: "byte list" where
  "packet6 = [9, 9, 9, 9, 96, 1]"

definition packet4 :: "byte list" where
  "packet4 = [9, 9, 9, 9, 69, 1]"

text \<open>
  Turns of the listener for the interface of index 7: an interface-info message
  (\<open>RTM_IFINFO\<close> at offset 3, index 7 at offset 12), after which the interface is
  found up, or down, with MTU 1500.
\<close>

definition ifinfo_msg :: "byte list" where
  "ifinfo_msg = [0, 0, 0, 14, 0, 0, 0, 0, 0, 0, 0, 0, 7, 0]"

definition note_up :: route_round where
  "note_up =
     \<lparr>rr_read = Inr ifinfo_msg,
      rr_lookup = Inr \<lparr>if_Index = 7, if_MTU = 1500, if_Name = ''wg0'', if_Flags = 1\<rparr>\<rparr>"

definition note_down :: route_round where
  "note_down =
     \<lparr>rr_read = Inr ifinfo_msg,
      rr_lookup = Inr \<lparr>if_Index = 7, if_MTU = 1500, if_Name = ''wg0'', if_Flags = 0\<rparr>\<rparr>"

text \<open>
  Turns the listener discards: a message about the interface of index 9, one of another
  kind (\<open>RTM_NEWADDR\<close>, 12), one of 4 bytes, and a read interrupted by a signal. The
  lookup answer is the one they would get; the listener does not ask.
\<close>

definition other_if_msg :: "byte list" where
  "other_if_msg = [0, 0, 0, 14, 0, 0, 0, 0, 0, 0, 0, 0, 9, 0]"

definition other_kind_msg :: "byte list" where
  "other_kind_msg = [0, 0, 0, 12, 0, 0, 0, 0, 0, 0, 0, 0, 7, 0]"

definition round_other_if :: route_round where
  "round_other_if =
     \<lparr>rr_read = Inr other_if_msg,
      rr_lookup = Inr \<lparr>if_Index = 9, if_MTU = 9000, if_Name = ''em0'', if_Flags = 0\<rparr>\<rparr>"

definition round_other_kind :: route_round where
  "round_other_kind =
     \<lparr>rr_read = Inr other_kind_msg,
      rr_lookup = Inr \<lparr>if_Index = 7, if_MTU = 9000, if_Name = ''wg0'', if_Flags = 0\<rparr>\<rparr>"

definition round_short :: route_round where
  "round_short =
     \<lparr>rr_read = Inr [0, 0, 0, 14],
      rr_lookup = Inr \<lparr>if_Index = 7, if_MTU = 9000, if_Name = ''wg0'', if_Flags = 0\<rparr>\<rparr>"

definition round_eintr :: route_round where
  "round_eintr =
     \<lparr>rr_read = Inl (Errno 4),
      rr_lookup = Inr \<lparr>if_Index = 7, if_MTU = 9000, if_Name = ''wg0'', if_Flags = 0\<rparr>\<rparr>"

text \<open>
  A kernel in which \<open>/dev/tun0\<close> can be opened as descriptor 3 and belongs to the
  interface \<open>tun0\<close>, until the rename to \<open>wg0\<close> has been asked for; every call succeeds.
\<close>

definition renamed :: "sys_call list \<Rightarrow> bool" where
  "renamed tr = (SysIoctl 4 (SIOCSIFNAME ''tun0'' ''wg0'') \<in> set tr)"

definition kernel_ok :: kernel where
  "kernel_ok =
     \<lparr>k_InterfaceByName = (\<lambda>tr name.
         if name = (if renamed tr then ''wg0'' else ''tun0'')
         then Inr \<lparr>if_Index = 7, if_MTU = 1500, if_Name = name, if_Flags = 0\<rparr>
         else Inl (LibError ''no such network interface'')),
      k_OpenFile = (\<lambda>tr path. if path = ''/dev/tun0'' then Inr 3 else Inl (Errno 2)),
      k_FileClose = (\<lambda>tr f. None),
      k_tunName = (\<lambda>tr f. if renamed tr then Inr ''wg0'' else Inr ''tun0''),
      k_ioctl = (\<lambda>tr f req. 0),
      k_Socket = (\<lambda>tr kind. case kind of ControlSocket \<Rightarrow> Inr 4 | RouteSocket \<Rightarrow> Inr 5),
      k_Close = (\<lambda>tr f. None),
      k_NewRWCancel = (\<lambda>tr f. None),
      k_Cancel = (\<lambda>tr f. None)\<rparr>"

text \<open>The same kernel, refusing \<open>TUNSIFHEAD\<close> with \<open>EINVAL\<close>.\<close>

definition kernel_ifhead_fails :: kernel where
  "kernel_ifhead_fails =
     kernel_ok\<lparr>k_ioctl := (\<lambda>tr f req. if req = TUNSIFHEAD then 22 else 0)\<rparr>"

text \<open>The same kernel, refusing the rename back to \<open>tun0\<close> with \<open>EBUSY\<close>.\<close>

definition kernel_restore_fails :: kernel where
  "kernel_restore_fails =
     kernel_ok\<lparr>k_ioctl := (\<lambda>tr f req. if req = SIOCSIFNAME ''wg0'' ''tun0'' then 16 else 0)\<rparr>"

text \<open>The handle \<open>CreateTUN\<close> returns for \<open>wg0\<close> on these kernels, and the log of its calls.\<close>

definition tun_wg0 :: nativeTun where
  "tun_wg0 =
     \<lparr>tun_name = ''wg0'', tun_origName = ''tun0'', tun_fd = 3, tun_rwcancel = Some 3,
      tun_events = Some False, tun_errors = None, tun_routeSocket = 5\<rparr>"

definition created_log :: "sys_call list" where
  "created_log =
     [SysInterfaceByName ''wg0'', SysOpenFile ''/dev/tun0'' (Inr 3), SysTunName 3,
      SysIoctl 3 TUNSIFHEAD, SysIoctl 3 TUNSIFMODE,
      SysSocket ControlSocket (Inr 4), SysIoctl 4 (SIOCSIFNAME ''tun0'' ''wg0''), SysClose 4,
      SysTunName 3, SysInterfaceByName ''wg0'', SysNewRWCancel 3,
      SysSocket RouteSocket (Inr 5), GoRouteListener 7,
      SysSocket ControlSocket (Inr 4), SysIoctl 4 (SIOCSIFMTU ''wg0'' 1420), SysClose 4]"

section \<open>Reading the notifications\<close>

text \<open>
  A turn of the listener is a matching interface-info notification when the read
  delivers at least 14 bytes of kind \<open>RTM_IFINFO\<close> for the listener's interface index and
  the interface is found; \<open>seen_up\<close> and \<open>seen_mtu\<close> are the up flag and the MTU the
  interface then has. \<open>remembered_up\<close> and \<open>remembered_mtu\<close> are those of the last
  notification of a sequence, down and 0 when there has been none.
\<close>

definition is_notification :: "platform \<Rightarrow> int \<Rightarrow> route_round \<Rightarrow> bool" where
  "is_notification pf tunIfindex r =
     ((case rr_read r of
         Inl err \<Rightarrow> False
       | Inr data \<Rightarrow>
           14 \<le> length data \<and> data ! 3 = RTM_IFINFO pf \<and> msg_ifindex data = tunIfindex) \<and>
      (case rr_lookup r of Inl err \<Rightarrow> False | Inr iface \<Rightarrow> True))"

definition seen_up :: "platform \<Rightarrow> route_round \<Rightarrow> bool" where
  "seen_up pf r =
     (case rr_lookup r of Inl err \<Rightarrow> False | Inr iface \<Rightarrow> if_Flags iface AND FlagUp pf \<noteq> 0)"

definition seen_mtu :: "route_round \<Rightarrow> int" where
  "seen_mtu r = (case rr_lookup r of Inl err \<Rightarrow> 0 | Inr iface \<Rightarrow> if_MTU iface)"

definition remembered_up :: "platform \<Rightarrow> route_round list \<Rightarrow> bool" where
  "remembered_up pf rs = (if rs = [] then False else seen_up pf (last rs))"

definition remembered_mtu :: "route_round list \<Rightarrow> int" where
  "remembered_mtu rs = (if rs = [] then 0 else seen_mtu (last rs))"

text \<open>
  A turn is discarded when the read is interrupted (\<open>EINTR\<close>), or delivers fewer than 14
  bytes, or a message of another kind, or one for another interface index: the listener
  goes back to reading. On every other turn that is no notification the listener stops
  (a read error, or the interface is not found). \<open>notifications\<close> are the matching
  notifications of a list of turns, in order.
\<close>

definition is_discarded :: "platform \<Rightarrow> int \<Rightarrow> route_round \<Rightarrow> bool" where
  "is_discarded pf tunIfindex r =
     (case rr_read r of
        Inl err \<Rightarrow> err = Errno (EINTR pf)
      | Inr data \<Rightarrow>
          length data < 14 \<or> data ! 3 \<noteq> RTM_IFINFO pf \<or> msg_ifindex data \<noteq> tunIfindex)"

definition keeps_listening :: "platform \<Rightarrow> int \<Rightarrow> route_round \<Rightarrow> bool" where
  "keeps_listening pf tunIfindex r =
     (is_notification pf tunIfindex r \<or> is_discarded pf tunIfindex r)"

definition notifications :: "platform \<Rightarrow> int \<Rightarrow> route_round list \<Rightarrow> route_round list" where
  "notifications pf tunIfindex rs = filter (is_notification pf tunIfindex) rs"

section \<open>conn.go: theorems\<close>

text \<open>
  C7. \<open>BindSetMark\<close> is idempotent: of two calls in a row with the same mark, the second
  returns no error and changes neither the device nor the log, so the socket mark is
  updated at most once over both; and a call whose mark is the stored fwmark returns no
  error without touching the bind.
\<close>

theorem BindSetMark_idempotent:
  "(BindSetMark nw mark device tr = (err1, device1, tr1) \<longrightarrow>
      BindSetMark nw mark device1 tr1 = (None, device1, tr1) \<and>
      mark_updates tr1 \<le> mark_updates tr + 1) \<and>
   (net_fwmark device = mark \<longrightarrow> BindSetMark nw mark device tr = (None, device, tr))"
  by (auto simp: BindSetMark_def mark_updates_def Let_def split: option.splits if_splits)

theorem BindSetMark_idempotent_witness:
  "BindSetMark network_no_mark 5 device_up [] =
     (Some (LibError ''operation not permitted''), device_marked, [CallSetMark 3 5]) \<and>
   BindSetMark network_no_mark 5 device_marked [CallSetMark 3 5] =
     (None, device_marked, [CallSetMark 3 5]) \<and>
   mark_updates [CallSetMark 3 5] \<le> mark_updates [] + 1 \<and>
   net_fwmark device_marked = 5"
proof -
  have h: "BindSetMark network_no_mark 5 device_up [] =
     (Some (LibError ''operation not permitted''), device_marked, [CallSetMark 3 5])"
    by (simp add: BindSetMark_def network_no_mark_def network_ok_def device_up_def
        device_marked_def)
  have m: "net_fwmark device_marked = 5"
    by (simp add: device_marked_def)
  show ?thesis
    using h m
      BindSetMark_idempotent [of network_no_mark 5 device_up "[]"
        "Some (LibError ''operation not permitted'')" device_marked "[CallSetMark 3 5]"]
    by simp
qed

text \<open>
  C10. \<open>BindUpdate\<close> is not atomic on failure. Once the old bind is closed without error
  and the device is up: if \<open>CreateBind\<close> fails, the error is returned and the network
  state is left with no bind and port 0, whatever the port was; if \<open>CreateBind\<close>
  succeeds and \<open>SetMark\<close> on the new bind fails, the error is returned and the new bind
  and its port stay installed.
\<close>

theorem BindUpdate_not_atomic:
  "unsafeCloseBind nw device tr = (None, device1, tr1) \<Longrightarrow> isUp device \<Longrightarrow>
   BindUpdate nw ClearSrc device tr = (err, device', tr') \<Longrightarrow>
   (\<forall>e. net_CreateBind nw tr1 (net_port device) = Inl e \<longrightarrow>
      err = Some e \<and> net_bind device' = None \<and> net_port device' = 0) \<and>
   (\<forall>b p e. net_CreateBind nw tr1 (net_port device) = Inr (b, p) \<and> net_fwmark device \<noteq> 0 \<and>
      bind_SetMark nw (tr1 @ [CallCreateBind (net_port device)]) b (net_fwmark device) = Some e \<longrightarrow>
      err = Some e \<and> net_bind device' = Some b \<and> net_port device' = p)"
  by (auto simp: BindUpdate_def unsafeCloseBind_def Let_def split: option.splits if_splits)

theorem BindUpdate_not_atomic_witness:
  "BindUpdate network_no_bind Suc device_up [] =
     (Some (LibError ''address already in use''), device_up\<lparr>net_bind := None, net_port := 0\<rparr>,
      [CallBindClose 3, CallCreateBind 51820]) \<and>
   net_port device_up = 51820 \<and>
   BindUpdate network_no_mark Suc device_marked [] =
     (Some (LibError ''operation not permitted''), device_marked\<lparr>net_bind := Some 7\<rparr>,
      [CallBindClose 3, CallCreateBind 51820, CallSetMark 7 5]) \<and>
   net_bind (device_marked\<lparr>net_bind := Some 7\<rparr>) = Some 7"
proof -
  have c1: "unsafeCloseBind network_no_bind device_up [] =
      (None, device_up\<lparr>net_bind := None\<rparr>, [CallBindClose 3])"
    by (simp add: unsafeCloseBind_def network_no_bind_def network_ok_def device_up_def)
  have u1: "isUp device_up" by (simp add: device_up_def)
  have b1: "BindUpdate network_no_bind Suc device_up [] =
     (Some (LibError ''address already in use''), device_up\<lparr>net_bind := None, net_port := 0\<rparr>,
      [CallBindClose 3, CallCreateBind 51820])"
    by (simp add: BindUpdate_def unsafeCloseBind_def network_no_bind_def network_ok_def
        device_up_def)
  have c2: "unsafeCloseBind network_no_mark device_marked [] =
      (None, device_marked\<lparr>net_bind := None\<rparr>, [CallBindClose 3])"
    by (simp add: unsafeCloseBind_def network_no_mark_def network_ok_def device_up_def
        device_marked_def)
  have u2: "isUp device_marked" by (simp add: device_up_def device_marked_def)
  have b2: "BindUpdate network_no_mark Suc device_marked [] =
     (Some (LibError ''operation not permitted''), device_marked\<lparr>net_bind := Some 7\<rparr>,
      [CallBindClose 3, CallCreateBind 51820, CallSetMark 7 5])"
    by (simp add: BindUpdate_def unsafeCloseBind_def network_no_mark_def network_ok_def
        device_up_def device_marked_def Let_def)
  show ?thesis
    using b1 b2 BindUpdate_not_atomic [OF c1 u1 b1] BindUpdate_not_atomic [OF c2 u2 b2]
    by (simp add: device_up_def)
qed




section \<open>Packet transport: theorems\<close>

lemma take4_updates:
  "4 \<le> length b \<Longrightarrow> take 4 (b[0 := x0, Suc 0 := x1, 2 := x2, 3 := x3]) = [x0, x1, x2, x3]"
  by (cases b; cases "tl b"; cases "tl (tl b)"; cases "tl (tl (tl b))")
     (auto simp: numeral_2_eq_2 numeral_3_eq_3)

text \<open>\<open>Write\<close> returns exactly when the five bytes from \<open>offset - 4\<close> on are in the buffer.\<close>

lemma Write_Inr_iff:
  "(\<exists>r. Write pf tun buff offset = Inr r) \<longleftrightarrow> 4 \<le> offset \<and> offset < int (length buff)"
  by (auto simp: Write_def slice_from_def store_def load_def split: sum.splits)

lemma Write_Inl:
  "Write pf tun buff offset = Inl a \<Longrightarrow> a = Panic"
  by (auto simp: Write_def slice_from_def store_def load_def split: sum.splits if_splits)

lemma Write_frame:
  assumes "4 \<le> offset" "offset < int (length buff)"
  shows "Write pf tun buff offset =
     Inr (fd_write tun ((drop (nat (offset - 4)) buff)[0 := 0, 1 := 0, 2 := 0,
              3 := (if drop_bit 4 (buff ! nat offset) = ipv6_Version pf
                    then AF_INET6 pf else AF_INET pf)]),
          take (nat (offset - 4)) buff @ (drop (nat (offset - 4)) buff)[0 := 0, 1 := 0, 2 := 0,
              3 := (if drop_bit 4 (buff ! nat offset) = ipv6_Version pf
                    then AF_INET6 pf else AF_INET pf)],
          tun\<lparr>fd_written := fd_written tun @
             [(drop (nat (offset - 4)) buff)[0 := 0, 1 := 0, 2 := 0,
              3 := (if drop_bit 4 (buff ! nat offset) = ipv6_Version pf
                    then AF_INET6 pf else AF_INET pf)]]\<rparr>)"
proof -
  have n: "nat (offset - 4) + 4 = nat offset" using assms by simp
  have l: "4 < length (drop (nat (offset - 4)) buff)" using assms by simp
  have v: "drop (nat (offset - 4)) buff ! 4 = buff ! nat offset"
    using assms n by (simp add: add.commute)
  show ?thesis
    using assms l v by (simp add: Write_def slice_from_def store_def load_def)
qed

text \<open>
  C5. Whenever \<open>Write\<close> hands a frame to the device, the frame is the one new entry of
  \<open>fd_written\<close>; its first four bytes are 0, 0, 0 and the address-family tag, which is
  \<open>AF_INET6\<close> if the high nibble of the payload's first byte \<open>buff[offset]\<close> is
  \<open>ipv6.Version\<close> and \<open>AF_INET\<close> otherwise; the rest of the frame is the payload.
\<close>

theorem Write_prefix:
  "Write pf tun buff offset = Inr (res, buff', tun') \<Longrightarrow>
   fd_written tun' = fd_written tun @ [last (fd_written tun')] \<and>
   take 4 (last (fd_written tun')) =
     [0, 0, 0,
      if drop_bit 4 (buff ! nat offset) = ipv6_Version pf then AF_INET6 pf else AF_INET pf] \<and>
   drop 4 (last (fd_written tun')) = drop (nat offset) buff"
proof -
  assume w: "Write pf tun buff offset = Inr (res, buff', tun')"
  then have b: "4 \<le> offset" "offset < int (length buff)"
    using Write_Inr_iff [of pf tun buff offset] by auto
  define tag where
    "tag = (if drop_bit 4 (buff ! nat offset) = ipv6_Version pf then AF_INET6 pf else AF_INET pf)"
  define frame where "frame = (drop (nat (offset - 4)) buff)[0 := 0, 1 := 0, 2 := 0, 3 := tag]"
  have n: "4 + nat (offset - 4) = nat offset" using b by simp
  have l: "4 \<le> length (drop (nat (offset - 4)) buff)" using b by simp
  have "tun' = tun\<lparr>fd_written := fd_written tun @ [frame]\<rparr>"
    using w Write_frame [OF b, of pf tun] by (simp add: frame_def tag_def)
  then have f: "fd_written tun' = fd_written tun @ [frame]" by simp
  have t: "take 4 frame = [0, 0, 0, tag]"
    using take4_updates [OF l, of 0 0 0 tag] by (simp add: frame_def)
  have d: "drop 4 frame = drop (nat offset) buff"
    by (simp add: frame_def n)
  show ?thesis using f t d by (simp add: tag_def)
qed

lemma Write_packet6:
  "Write dragonfly_amd64 tun_idle packet6 4 =
     Inr ((6, None), [0, 0, 0, 28, 96, 1], tun_idle\<lparr>fd_written := [[0, 0, 0, 28, 96, 1]]\<rparr>)"
  by (simp add: Write_def slice_from_def store_def load_def packet6_def tun_idle_def
      dragonfly_amd64_def drop_bit_eq_div)

lemma Write_packet4:
  "Write dragonfly_amd64 tun_idle packet4 4 =
     Inr ((6, None), [0, 0, 0, 2, 69, 1], tun_idle\<lparr>fd_written := [[0, 0, 0, 2, 69, 1]]\<rparr>)"
  by (simp add: Write_def slice_from_def store_def load_def packet4_def tun_idle_def
      dragonfly_amd64_def drop_bit_eq_div)

theorem Write_prefix_witness:
  "Write dragonfly_amd64 tun_idle packet6 4 =
     Inr ((6, None), [0, 0, 0, 28, 96, 1], tun_idle\<lparr>fd_written := [[0, 0, 0, 28, 96, 1]]\<rparr>) \<and>
   take 4 (last (fd_written (tun_idle\<lparr>fd_written := [[0, 0, 0, 28, 96, 1]]\<rparr>))) =
     [0, 0, 0, AF_INET6 dragonfly_amd64] \<and>
   Write dragonfly_amd64 tun_idle packet4 4 =
     Inr ((6, None), [0, 0, 0, 2, 69, 1], tun_idle\<lparr>fd_written := [[0, 0, 0, 2, 69, 1]]\<rparr>) \<and>
   take 4 (last (fd_written (tun_idle\<lparr>fd_written := [[0, 0, 0, 2, 69, 1]]\<rparr>))) =
     [0, 0, 0, AF_INET dragonfly_amd64]"
  using Write_packet6 Write_packet4 Write_prefix [OF Write_packet6] Write_prefix [OF Write_packet4]
  by (simp add: dragonfly_amd64_def)

text \<open>
  C9, as the code has it. \<open>Write\<close> panics exactly when \<open>offset < 4\<close> or the buffer is
  shorter than \<open>offset + 1\<close>. \<open>doRead\<close>, with no error waiting in \<open>tun.errors\<close>, only
  slices the buffer at \<open>offset - 4\<close>: it panics exactly when \<open>offset < 4\<close> or the buffer
  is shorter than \<open>offset - 4\<close>. With an error waiting, \<open>doRead\<close> does not touch the
  buffer and never panics.
\<close>

theorem Write_doRead_bounds:
  "(Write pf tun buff offset = Inl Panic \<longleftrightarrow> offset < 4 \<or> int (length buff) < offset + 1) \<and>
   (errors_chan tun = None \<longrightarrow>
      (doRead tun buff offset = Inl Panic \<longleftrightarrow> offset < 4 \<or> int (length buff) < offset - 4)) \<and>
   (errors_chan tun \<noteq> None \<longrightarrow> doRead tun buff offset \<noteq> Inl Panic)"
proof -
  have "Write pf tun buff offset = Inl Panic \<longleftrightarrow> \<not> (\<exists>r. Write pf tun buff offset = Inr r)"
    using Write_Inl [of pf tun buff offset] by (cases "Write pf tun buff offset") auto
  then have 1: "Write pf tun buff offset = Inl Panic \<longleftrightarrow>
      offset < 4 \<or> int (length buff) < offset + 1"
    unfolding Write_Inr_iff by auto
  have 2: "errors_chan tun = None \<longrightarrow>
      (doRead tun buff offset = Inl Panic \<longleftrightarrow> offset < 4 \<or> int (length buff) < offset - 4)"
    by (auto simp: doRead_def slice_from_def Let_def split: list.splits prod.splits)
  have 3: "errors_chan tun \<noteq> None \<longrightarrow> doRead tun buff offset \<noteq> Inl Panic"
    by (auto simp: doRead_def)
  show ?thesis using 1 2 3 by blast
qed

theorem Write_doRead_bounds_witness:
  "errors_chan tun_packet = None \<and>
   Write dragonfly_amd64 tun_packet buffer8 3 = Inl Panic \<and>
   doRead tun_packet buffer8 3 = Inl Panic \<and>
   Write dragonfly_amd64 tun_packet buffer8 8 = Inl Panic \<and>
   doRead tun_packet buffer8 8 \<noteq> Inl Panic \<and>
   doRead tun_packet buffer8 13 = Inl Panic \<and>
   errors_chan tun_failed \<noteq> None \<and>
   doRead tun_failed buffer8 3 \<noteq> Inl Panic"
proof -
  have e: "errors_chan tun_packet = None" "errors_chan tun_failed \<noteq> None"
    by (simp_all add: tun_packet_def tun_failed_def tun_idle_def)
  have l: "length buffer8 = 8" by (simp add: buffer8_def)
  show ?thesis
    using e l
      Write_doRead_bounds [of dragonfly_amd64 tun_packet buffer8 3]
      Write_doRead_bounds [of dragonfly_amd64 tun_packet buffer8 8]
      Write_doRead_bounds [of dragonfly_amd64 tun_packet buffer8 13]
      Write_doRead_bounds [of dragonfly_amd64 tun_failed buffer8 3]
    by simp
qed

text \<open>
  C9 as stated fails for \<open>Read\<close>: with a buffer of 8 bytes and \<open>offset = 8\<close> the buffer
  is shorter than \<open>offset + 1\<close>, yet \<open>doRead\<close> reads into the four bytes \<open>buff[4:]\<close> and
  returns.
\<close>

theorem Write_doRead_bounds_counterexample:
  "int (length buffer8) < 8 + 1 \<and>
   doRead tun_packet buffer8 8 =
     Inr ((0, None), [9, 9, 9, 9, 0, 0, 0, 2], tun_packet\<lparr>fd_reads := []\<rparr>)"
  by (simp add: doRead_def slice_from_def buffer8_def tun_packet_def tun_idle_def Let_def)

lemma doRead_slot:
  "errors_chan tun = Some e \<Longrightarrow>
   doRead tun buff offset = Inr ((0, Some e), buff, tun\<lparr>errors_chan := None\<rparr>)"
  by (simp add: doRead_def)

lemma doRead_device:
  "errors_chan tun = None \<Longrightarrow> 4 \<le> offset \<Longrightarrow> offset - 4 \<le> int (length buff) \<Longrightarrow>
   fd_reads tun = (data, err) # rest \<Longrightarrow>
   n = min (length data) (length buff - nat (offset - 4)) \<Longrightarrow>
   \<exists>buff'. doRead tun buff offset =
      Inr ((if n < 4 then 0 else int n - 4, err), buff', tun\<lparr>fd_reads := rest\<rparr>)"
  by (auto simp: doRead_def slice_from_def Let_def min_def)

text \<open>
  C6, as the code has it. If an error that is no retry condition waits in
  \<open>tun.errors\<close>, \<open>Read\<close> returns it with length 0, and the buffer, the reads the device
  still has to answer and the \<open>ReadyRead\<close> answers are what they were. If none waits
  and the slice is in range, then for an underlying read of \<open>n\<close> bytes whose error is
  none or no retry condition, \<open>Read\<close> returns \<open>n - 4\<close> when \<open>n \<ge> 4\<close> and 0 when \<open>n < 4\<close>,
  with the read's own error or none. When the error of \<open>doRead\<close> is a retry condition,
  \<open>Read\<close> does not return it: it fails with "tun device closed" if \<open>ReadyRead\<close> answers
  false, and reads again if it answers true.
\<close>

theorem Read_result:
  "(errors_chan tun = Some e \<and> \<not> retry e \<longrightarrow>
      Read retry readys tun buff offset =
        Inr (((0, Some e), buff, tun\<lparr>errors_chan := None\<rparr>), readys)) \<and>
   (errors_chan tun = None \<and> 4 \<le> offset \<and> offset - 4 \<le> int (length buff) \<and>
    fd_reads tun = (data, err) # rest \<and> (\<forall>e'. err = Some e' \<longrightarrow> \<not> retry e') \<and>
    n = min (length data) (length buff - nat (offset - 4)) \<longrightarrow>
      (\<exists>buff'. Read retry readys tun buff offset =
        Inr (((if n < 4 then 0 else int n - 4, err), buff', tun\<lparr>fd_reads := rest\<rparr>), readys))) \<and>
   (doRead tun buff offset = Inr ((k, Some e), buff1, tun1) \<and> retry e \<longrightarrow>
      Read retry (False # readys) tun buff offset =
        Inr (((0, Some DeviceClosed), buff1, tun1), readys) \<and>
      Read retry (True # readys) tun buff offset = Read retry readys tun1 buff1 offset)"
proof -
  have 1: "errors_chan tun = Some e \<and> \<not> retry e \<longrightarrow>
      Read retry readys tun buff offset =
        Inr (((0, Some e), buff, tun\<lparr>errors_chan := None\<rparr>), readys)"
    by (simp add: doRead_slot)
  have 2: "errors_chan tun = None \<and> 4 \<le> offset \<and> offset - 4 \<le> int (length buff) \<and>
    fd_reads tun = (data, err) # rest \<and> (\<forall>e'. err = Some e' \<longrightarrow> \<not> retry e') \<and>
    n = min (length data) (length buff - nat (offset - 4)) \<longrightarrow>
      (\<exists>buff'. Read retry readys tun buff offset =
        Inr (((if n < 4 then 0 else int n - 4, err), buff', tun\<lparr>fd_reads := rest\<rparr>), readys))"
  proof (intro impI; elim conjE)
    assume a: "errors_chan tun = None" "4 \<le> offset" "offset - 4 \<le> int (length buff)"
      "fd_reads tun = (data, err) # rest" "\<forall>e'. err = Some e' \<longrightarrow> \<not> retry e'"
      "n = min (length data) (length buff - nat (offset - 4))"
    from doRead_device [OF a(1-4) a(6)] obtain buff' where
      d: "doRead tun buff offset =
        Inr ((if n < 4 then 0 else int n - 4, err), buff', tun\<lparr>fd_reads := rest\<rparr>)" by blast
    show "\<exists>buff'. Read retry readys tun buff offset =
        Inr (((if n < 4 then 0 else int n - 4, err), buff', tun\<lparr>fd_reads := rest\<rparr>), readys)"
      using d a(5) by (cases err) auto
  qed
  have 3: "doRead tun buff offset = Inr ((k, Some e), buff1, tun1) \<and> retry e \<longrightarrow>
      Read retry (False # readys) tun buff offset =
        Inr (((0, Some DeviceClosed), buff1, tun1), readys) \<and>
      Read retry (True # readys) tun buff offset = Read retry readys tun1 buff1 offset"
    by simp
  show ?thesis using 1 2 3 by blast
qed

lemma doRead_again:
  "doRead tun_again buffer8 4 = Inr ((0, Some (Errno 35)), buffer8, tun_idle)"
  by (simp add: doRead_def slice_from_def buffer8_def tun_again_def tun_idle_def Let_def)

lemma retry_examples:
  "RetryAfterError dragonfly_amd64 (Errno 35)"
  "\<not> RetryAfterError dragonfly_amd64 (LibError ''route ip+net: no such network interface'')"
  by (simp_all add: RetryAfterError_def dragonfly_amd64_def)

theorem Read_result_witness:
  "errors_chan tun_failed = Some (LibError ''route ip+net: no such network interface'') \<and>
   Read (RetryAfterError dragonfly_amd64) [] tun_failed buffer8 4 =
     Inr (((0, Some (LibError ''route ip+net: no such network interface'')), buffer8,
           tun_failed\<lparr>errors_chan := None\<rparr>), []) \<and>
   fd_reads tun_packet = [([0, 0, 0, 2, 69, 0], None)] \<and>
   Read (RetryAfterError dragonfly_amd64) [] tun_packet buffer8 4 =
     Inr (((2, None), [0, 0, 0, 2, 69, 0, 9, 9], tun_packet\<lparr>fd_reads := []\<rparr>), []) \<and>
   Read (RetryAfterError dragonfly_amd64) [False] tun_again buffer8 4 =
     Inr (((0, Some DeviceClosed), buffer8, tun_idle), []) \<and>
   Read (RetryAfterError dragonfly_amd64) [True] tun_again buffer8 4 =
     Read (RetryAfterError dragonfly_amd64) [] tun_idle buffer8 4"
proof -
  have s: "errors_chan tun_failed = Some (LibError ''route ip+net: no such network interface'')"
    by (simp add: tun_failed_def tun_idle_def)
  have p: "errors_chan tun_packet = None" "fd_reads tun_packet = [([0, 0, 0, 2, 69, 0], None)]"
    "length buffer8 = 8"
    by (simp_all add: tun_packet_def tun_idle_def buffer8_def)
  have r: "Read (RetryAfterError dragonfly_amd64) [] tun_packet buffer8 4 =
     Inr (((2, None), [0, 0, 0, 2, 69, 0, 9, 9], tun_packet\<lparr>fd_reads := []\<rparr>), [])"
    by (simp add: doRead_def slice_from_def buffer8_def tun_packet_def tun_idle_def Let_def)
  show ?thesis
    using s p r doRead_again retry_examples
      Read_result [where tun = tun_failed and retry = "RetryAfterError dragonfly_amd64"
        and e = "LibError ''route ip+net: no such network interface''"
        and readys = "[]" and buff = buffer8 and offset = 4]
      Read_result [where tun = tun_packet and retry = "RetryAfterError dragonfly_amd64"
        and readys = "[]" and buff = buffer8 and offset = 4
        and data = "[0, 0, 0, 2, 69, 0]" and err = None and rest = "[]" and n = 6]
      Read_result [where tun = tun_again and retry = "RetryAfterError dragonfly_amd64"
        and e = "Errno 35" and readys = "[]" and buff = buffer8 and offset = 4
        and k = 0 and ?buff1.0 = buffer8 and ?tun1.0 = tun_idle]
    by (simp del: Read.simps)
qed

text \<open>
  C6 as stated fails: no error waits in \<open>tun.errors\<close>, the underlying read delivers 0
  bytes with the error \<open>EAGAIN\<close>, a retry condition, and \<open>ReadyRead\<close> answers false;
  \<open>Read\<close> returns "tun device closed", not the read's own error.
\<close>

theorem Read_result_counterexample:
  "errors_chan tun_again = None \<and>
   fd_reads tun_again = [([], Some (Errno 35))] \<and>
   RetryAfterError dragonfly_amd64 (Errno 35) \<and>
   Read (RetryAfterError dragonfly_amd64) [False] tun_again buffer8 4 =
     Inr (((0, Some DeviceClosed), buffer8, tun_idle), [])"
  by (simp add: doRead_again retry_examples)
     (simp add: tun_again_def tun_idle_def)

section \<open>The route listener: theorems\<close>

lemma route_loop_notification:
  "is_notification pf idx r \<Longrightarrow>
   route_loop pf idx up mtu (r # rs) =
     (transition_events up mtu (seen_up pf r) (seen_mtu r) @
        fst (route_loop pf idx (seen_up pf r) (seen_mtu r) rs),
      snd (route_loop pf idx (seen_up pf r) (seen_mtu r) rs))"
  by (auto simp: is_notification_def seen_up_def seen_mtu_def Let_def
      split: sum.splits prod.splits)

text \<open>A discarded turn leaves no trace: no event, and the remembered state as it was.\<close>

lemma route_loop_discarded:
  "is_discarded pf idx r \<Longrightarrow>
   route_loop pf idx up mtu (r # rs) = route_loop pf idx up mtu rs"
  by (auto simp: is_discarded_def split: sum.splits)

lemma discarded_not_notification:
  "is_discarded pf idx r \<Longrightarrow> \<not> is_notification pf idx r"
  by (auto simp: is_discarded_def is_notification_def split: sum.splits)

text \<open>
  A list of turns on which the listener keeps listening behaves as its notifications
  alone.
\<close>

lemma route_loop_notifications:
  "list_all (keeps_listening pf idx) rs \<Longrightarrow>
   route_loop pf idx up mtu rs = route_loop pf idx up mtu (notifications pf idx rs)"
proof (induction rs arbitrary: up mtu)
  case Nil
  then show ?case by (simp add: notifications_def)
next
  case (Cons a rs)
  from Cons.prems have rest: "list_all (keeps_listening pf idx) rs"
    by simp
  from Cons.prems have a: "is_notification pf idx a \<or> is_discarded pf idx a"
    by (simp add: keeps_listening_def)
  from a show ?case
  proof
    assume n: "is_notification pf idx a"
    then have f: "notifications pf idx (a # rs) = a # notifications pf idx rs"
      by (simp add: notifications_def)
    show ?thesis
      unfolding f route_loop_notification [OF n]
      using Cons.IH [OF rest] by simp
  next
    assume d: "is_discarded pf idx a"
    then have f: "notifications pf idx (a # rs) = notifications pf idx rs"
      using discarded_not_notification [OF d] by (simp add: notifications_def)
    show ?thesis
      unfolding f route_loop_discarded [OF d]
      using Cons.IH [OF rest] .
  qed
qed

text \<open>
  After a sequence of notifications, one more: the events of the sequence, then those
  of the last step, computed from what the listener remembers at that point.
\<close>

lemma route_loop_snoc:
  "list_all (is_notification pf idx) rs \<Longrightarrow> is_notification pf idx r \<Longrightarrow>
   route_loop pf idx up mtu (rs @ [r]) =
     (fst (route_loop pf idx up mtu rs) @
        transition_events (if rs = [] then up else seen_up pf (last rs))
          (if rs = [] then mtu else seen_mtu (last rs)) (seen_up pf r) (seen_mtu r),
      Waiting (seen_up pf r) (seen_mtu r))"
proof (induction rs arbitrary: up mtu)
  case Nil
  then show ?case
    by (simp add: route_loop_notification del: route_loop.simps(2))
next
  case (Cons a rs)
  then show ?case
    by (simp add: route_loop_notification del: route_loop.simps(2))
qed

lemma route_loop_state:
  "list_all (is_notification pf idx) rs \<Longrightarrow>
   snd (route_loop pf idx up mtu rs) =
     Waiting (if rs = [] then up else seen_up pf (last rs))
       (if rs = [] then mtu else seen_mtu (last rs))"
proof (cases rs rule: rev_cases)
  case Nil
  then show ?thesis by simp
next
  case (snoc ys y)
  assume "list_all (is_notification pf idx) rs"
  with snoc have "list_all (is_notification pf idx) ys" "is_notification pf idx y"
    by simp_all
  from route_loop_snoc [OF this] snoc show ?thesis by simp
qed

lemma notifications_all:
  "list_all (is_notification pf idx) (notifications pf idx rs)"
  by (simp add: notifications_def list_all_iff)

lemma notifications_snoc:
  "is_notification pf idx r \<Longrightarrow>
     notifications pf idx (rs @ [r]) = notifications pf idx rs @ [r]"
  "is_discarded pf idx r \<Longrightarrow> notifications pf idx (rs @ [r]) = notifications pf idx rs"
  using discarded_not_notification [of pf idx r] by (auto simp: notifications_def)

text \<open>
  C3. The reads of the route socket are any list of turns on which the listener keeps
  listening: matching interface-info notifications, with discarded turns (interrupted
  reads, short messages, other kinds, other interfaces) anywhere between them. What the
  listener remembers after them is the flag and the MTU of the last matching
  notification, down and 0 if there has been none. For one more matching notification
  the events sent are, in this order: \<open>TUNEventUp\<close> exactly if the interface is now up and
  was remembered down, \<open>TUNEventDown\<close> exactly if it is now down and was remembered up,
  and one \<open>TUNEventMTUUpdate\<close> exactly if its MTU differs from the remembered one; they
  follow the events sent before, and the listener then remembers the new flag and MTU.
  For one more discarded turn nothing is sent and nothing is forgotten.
\<close>

theorem listener_edge_triggered:
  "list_all (keeps_listening pf idx) rs \<Longrightarrow>
   snd (routineRouteListener pf idx rs) =
     Waiting (remembered_up pf (notifications pf idx rs))
       (remembered_mtu (notifications pf idx rs)) \<and>
   (is_notification pf idx r \<longrightarrow>
      routineRouteListener pf idx (rs @ [r]) =
        (fst (routineRouteListener pf idx rs) @
           (if seen_up pf r \<and> \<not> remembered_up pf (notifications pf idx rs)
            then [TUNEventUp] else []) @
           (if \<not> seen_up pf r \<and> remembered_up pf (notifications pf idx rs)
            then [TUNEventDown] else []) @
           (if seen_mtu r \<noteq> remembered_mtu (notifications pf idx rs)
            then [TUNEventMTUUpdate] else []),
         Waiting (seen_up pf r) (seen_mtu r))) \<and>
   (is_discarded pf idx r \<longrightarrow>
      routineRouteListener pf idx (rs @ [r]) = routineRouteListener pf idx rs)"
proof -
  assume k: "list_all (keeps_listening pf idx) rs"
  define ns where "ns = notifications pf idx rs"
  have all: "list_all (is_notification pf idx) ns"
    unfolding ns_def by (rule notifications_all)
  have eq: "route_loop pf idx False 0 rs = route_loop pf idx False 0 ns"
    unfolding ns_def by (rule route_loop_notifications [OF k])
  have 1: "snd (routineRouteListener pf idx rs) =
      Waiting (remembered_up pf ns) (remembered_mtu ns)"
    using route_loop_state [OF all, of False 0]
    by (simp add: routineRouteListener_def eq remembered_up_def remembered_mtu_def)
  have 2: "routineRouteListener pf idx (rs @ [r]) =
        (fst (routineRouteListener pf idx rs) @
           (if seen_up pf r \<and> \<not> remembered_up pf ns then [TUNEventUp] else []) @
           (if \<not> seen_up pf r \<and> remembered_up pf ns then [TUNEventDown] else []) @
           (if seen_mtu r \<noteq> remembered_mtu ns then [TUNEventMTUUpdate] else []),
         Waiting (seen_up pf r) (seen_mtu r))"
    if n: "is_notification pf idx r"
  proof -
    have k': "list_all (keeps_listening pf idx) (rs @ [r])"
      using k n by (simp add: keeps_listening_def)
    have "route_loop pf idx False 0 (rs @ [r]) = route_loop pf idx False 0 (ns @ [r])"
      using route_loop_notifications [OF k', of False 0] notifications_snoc(1) [OF n, of rs]
      by (simp add: ns_def)
    then show ?thesis
      using route_loop_snoc [OF all n, of False 0]
      by (auto simp: routineRouteListener_def eq remembered_up_def remembered_mtu_def
          transition_events_def)
  qed
  have 3: "routineRouteListener pf idx (rs @ [r]) = routineRouteListener pf idx rs"
    if d: "is_discarded pf idx r"
  proof -
    have k': "list_all (keeps_listening pf idx) (rs @ [r])"
      using k d by (simp add: keeps_listening_def)
    show ?thesis
      using route_loop_notifications [OF k', of False 0] notifications_snoc(2) [OF d, of rs]
      by (simp add: routineRouteListener_def eq ns_def)
  qed
  show ?thesis using 1 2 3 unfolding ns_def by blast
qed

lemma rounds_classified:
  "is_notification dragonfly_amd64 7 note_up" "is_notification dragonfly_amd64 7 note_down"
  "is_discarded dragonfly_amd64 7 round_other_if" "is_discarded dragonfly_amd64 7 round_other_kind"
  "is_discarded dragonfly_amd64 7 round_short" "is_discarded dragonfly_amd64 7 round_eintr"
  "seen_up dragonfly_amd64 note_up" "\<not> seen_up dragonfly_amd64 note_down"
  "seen_mtu note_up = 1500" "seen_mtu note_down = 1500"
  by (simp_all add: is_notification_def is_discarded_def seen_up_def seen_mtu_def
      note_up_def note_down_def round_other_if_def round_other_kind_def round_short_def
      round_eintr_def ifinfo_msg_def other_if_msg_def other_kind_msg_def msg_ifindex_def
      dragonfly_amd64_def)

lemma rounds_keep_listening:
  "keeps_listening dragonfly_amd64 7 note_up" "keeps_listening dragonfly_amd64 7 note_down"
  "keeps_listening dragonfly_amd64 7 round_other_if"
  "keeps_listening dragonfly_amd64 7 round_other_kind"
  "keeps_listening dragonfly_amd64 7 round_short" "keeps_listening dragonfly_amd64 7 round_eintr"
  by (simp_all add: keeps_listening_def rounds_classified)

lemma rounds_no_notification:
  "\<not> is_notification dragonfly_amd64 7 round_other_if"
  "\<not> is_notification dragonfly_amd64 7 round_other_kind"
  "\<not> is_notification dragonfly_amd64 7 round_short"
  "\<not> is_notification dragonfly_amd64 7 round_eintr"
  by (simp_all add: discarded_not_notification rounds_classified)

theorem listener_edge_triggered_witness:
  "list_all (keeps_listening dragonfly_amd64 7)
     [note_up, round_other_if, round_eintr, round_short, round_other_kind, note_up] \<and>
   is_notification dragonfly_amd64 7 note_up \<and>
   is_notification dragonfly_amd64 7 note_down \<and>
   is_discarded dragonfly_amd64 7 round_other_if \<and>
   routineRouteListener dragonfly_amd64 7 ([] @ [note_up]) =
     ([TUNEventUp, TUNEventMTUUpdate], Waiting True 1500) \<and>
   routineRouteListener dragonfly_amd64 7 ([note_up] @ [round_other_if]) =
     ([TUNEventUp, TUNEventMTUUpdate], Waiting True 1500) \<and>
   routineRouteListener dragonfly_amd64 7 ([note_up, round_other_if] @ [round_eintr]) =
     ([TUNEventUp, TUNEventMTUUpdate], Waiting True 1500) \<and>
   routineRouteListener dragonfly_amd64 7
       ([note_up, round_other_if, round_eintr] @ [round_short]) =
     ([TUNEventUp, TUNEventMTUUpdate], Waiting True 1500) \<and>
   routineRouteListener dragonfly_amd64 7
       ([note_up, round_other_if, round_eintr, round_short] @ [round_other_kind]) =
     ([TUNEventUp, TUNEventMTUUpdate], Waiting True 1500) \<and>
   routineRouteListener dragonfly_amd64 7
       ([note_up, round_other_if, round_eintr, round_short, round_other_kind] @ [note_up]) =
     ([TUNEventUp, TUNEventMTUUpdate], Waiting True 1500) \<and>
   routineRouteListener dragonfly_amd64 7
       ([note_up, round_other_if, round_eintr, round_short, round_other_kind, note_up] @
        [note_down]) =
     ([TUNEventUp, TUNEventMTUUpdate, TUNEventDown], Waiting False 1500)"
proof -
  note c = rounds_classified rounds_no_notification
  have k0: "list_all (keeps_listening dragonfly_amd64 7) []"
    and k1: "list_all (keeps_listening dragonfly_amd64 7) [note_up]"
    and k2: "list_all (keeps_listening dragonfly_amd64 7) [note_up, round_other_if]"
    and k3: "list_all (keeps_listening dragonfly_amd64 7) [note_up, round_other_if, round_eintr]"
    and k4: "list_all (keeps_listening dragonfly_amd64 7)
               [note_up, round_other_if, round_eintr, round_short]"
    and k5: "list_all (keeps_listening dragonfly_amd64 7)
               [note_up, round_other_if, round_eintr, round_short, round_other_kind]"
    and k6: "list_all (keeps_listening dragonfly_amd64 7)
               [note_up, round_other_if, round_eintr, round_short, round_other_kind, note_up]"
    by (simp_all add: rounds_keep_listening)
  have 0: "routineRouteListener dragonfly_amd64 7 [] = ([], Waiting False 0)"
    by (simp add: routineRouteListener_def)
  have 1: "routineRouteListener dragonfly_amd64 7 ([] @ [note_up]) =
     ([TUNEventUp, TUNEventMTUUpdate], Waiting True 1500)"
    using listener_edge_triggered [OF k0, of note_up] 0
    by (simp add: c notifications_def remembered_up_def remembered_mtu_def)
  have 2: "routineRouteListener dragonfly_amd64 7 ([note_up] @ [round_other_if]) =
     ([TUNEventUp, TUNEventMTUUpdate], Waiting True 1500)"
    using listener_edge_triggered [OF k1, of round_other_if] 1
    by (simp add: c)
  have 3: "routineRouteListener dragonfly_amd64 7 ([note_up, round_other_if] @ [round_eintr]) =
     ([TUNEventUp, TUNEventMTUUpdate], Waiting True 1500)"
    using listener_edge_triggered [OF k2, of round_eintr] 2
    by (simp add: c)
  have 4: "routineRouteListener dragonfly_amd64 7
       ([note_up, round_other_if, round_eintr] @ [round_short]) =
     ([TUNEventUp, TUNEventMTUUpdate], Waiting True 1500)"
    using listener_edge_triggered [OF k3, of round_short] 3
    by (simp add: c)
  have 5: "routineRouteListener dragonfly_amd64 7
       ([note_up, round_other_if, round_eintr, round_short] @ [round_other_kind]) =
     ([TUNEventUp, TUNEventMTUUpdate], Waiting True 1500)"
    using listener_edge_triggered [OF k4, of round_other_kind] 4
    by (simp add: c)
  have 6: "routineRouteListener dragonfly_amd64 7
       ([note_up, round_other_if, round_eintr, round_short, round_other_kind] @ [note_up]) =
     ([TUNEventUp, TUNEventMTUUpdate], Waiting True 1500)"
    using listener_edge_triggered [OF k5, of note_up] 5
    by (simp add: c notifications_def remembered_up_def remembered_mtu_def)
  have 7: "routineRouteListener dragonfly_amd64 7
       ([note_up, round_other_if, round_eintr, round_short, round_other_kind, note_up] @
        [note_down]) =
     ([TUNEventUp, TUNEventMTUUpdate, TUNEventDown], Waiting False 1500)"
    using listener_edge_triggered [OF k6, of note_down] 6
    by (simp add: c notifications_def remembered_up_def remembered_mtu_def)
  show ?thesis
    using k6 c(1,2,3) 1 2 3 4 5 6 7 by blast
qed

section \<open>Creating and closing the device: theorems\<close>

lemma decimal_0: "decimal 0 = ''0''"
  by code_simp

lemma probe_tun0:
  "k_OpenFile k tr ''/dev/tun0'' = Inr f \<Longrightarrow>
   probe k 0 tr = (Some f, tr @ [SysOpenFile ''/dev/tun0'' (Inr f)])"
  by (simp add: probe.simps [of k 0] decimal_0)

text \<open>
  C8. A name longer than \<open>IFNAMSIZ - 1\<close> makes \<open>CreateTUN\<close> fail with "interface name too
  long" and an unchanged log: no call at all has been made. A name within the limit for
  which \<open>net.InterfaceByName\<close> finds an interface makes it fail with "interface ...
  already exists", and the lookup is the only call in the log: no descriptor has been
  opened.
\<close>

theorem CreateTUN_rejects:
  "(int (length name) > int (IFNAMSIZ pf) - 1 \<longrightarrow>
      CreateTUN k pf name mtu tr = Inr (Inl NameTooLong, tr)) \<and>
   (int (length name) \<le> int (IFNAMSIZ pf) - 1 \<and> k_InterfaceByName k tr name = Inr ifc \<longrightarrow>
      CreateTUN k pf name mtu tr =
        Inr (Inl (AlreadyExists name), tr @ [SysInterfaceByName name]))"
  by (simp add: CreateTUN_def)

theorem CreateTUN_rejects_witness:
  "int (length ''wireguard-tunnel'') > int (IFNAMSIZ dragonfly_amd64) - 1 \<and>
   CreateTUN kernel_ok dragonfly_amd64 ''wireguard-tunnel'' 1420 [] = Inr (Inl NameTooLong, []) \<and>
   int (length ''tun0'') \<le> int (IFNAMSIZ dragonfly_amd64) - 1 \<and>
   k_InterfaceByName kernel_ok [] ''tun0'' =
     Inr \<lparr>if_Index = 7, if_MTU = 1500, if_Name = ''tun0'', if_Flags = 0\<rparr> \<and>
   CreateTUN kernel_ok dragonfly_amd64 ''tun0'' 1420 [] =
     Inr (Inl (AlreadyExists ''tun0''), [SysInterfaceByName ''tun0''])"
proof -
  have l: "int (length ''wireguard-tunnel'') > int (IFNAMSIZ dragonfly_amd64) - 1"
    "int (length ''tun0'') \<le> int (IFNAMSIZ dragonfly_amd64) - 1"
    by (simp_all add: dragonfly_amd64_def)
  have i: "k_InterfaceByName kernel_ok [] ''tun0'' =
     Inr \<lparr>if_Index = 7, if_MTU = 1500, if_Name = ''tun0'', if_Flags = 0\<rparr>"
    by (simp add: kernel_ok_def renamed_def)
  show ?thesis
    using l i
      CreateTUN_rejects [where name = "''wireguard-tunnel''" and pf = dragonfly_amd64
        and k = kernel_ok and mtu = 1420 and tr = "[]"]
      CreateTUN_rejects [where name = "''tun0''" and pf = dragonfly_amd64
        and k = kernel_ok and mtu = 1420 and tr = "[]"
        and ifc = "\<lparr>if_Index = 7, if_MTU = 1500, if_Name = ''tun0'', if_Flags = 0\<rparr>"]
    by simp
qed

text \<open>
  C2 fails on the code. \<open>/dev/tun0\<close> is opened as descriptor 3, the name is found, and
  the kernel refuses \<open>TUNSIFHEAD\<close>: \<open>CreateTUN\<close> returns the error, and the log ends with
  the ioctl. Descriptor 3 is left open.
\<close>

theorem CreateTUN_leaks_descriptor:
  "CreateTUN kernel_ifhead_fails dragonfly_amd64 ''wg0'' 1420 [] =
     Inr (Inl (IoctlFailed 22),
          [SysInterfaceByName ''wg0'', SysOpenFile ''/dev/tun0'' (Inr 3), SysTunName 3,
           SysIoctl 3 TUNSIFHEAD]) \<and>
   left_open [SysInterfaceByName ''wg0'', SysOpenFile ''/dev/tun0'' (Inr 3), SysTunName 3,
              SysIoctl 3 TUNSIFHEAD] 3"
proof -
  have l: "\<not> int (length ''wg0'') > int (IFNAMSIZ dragonfly_amd64) - 1"
    by (simp add: dragonfly_amd64_def)
  have i: "k_InterfaceByName kernel_ifhead_fails [] ''wg0'' =
      Inl (LibError ''no such network interface'')"
    by (simp add: kernel_ifhead_fails_def kernel_ok_def renamed_def)
  have p: "probe kernel_ifhead_fails 0 [SysInterfaceByName ''wg0''] =
      (Some 3, [SysInterfaceByName ''wg0'', SysOpenFile ''/dev/tun0'' (Inr 3)])"
    by (simp add: probe_tun0 kernel_ifhead_fails_def kernel_ok_def)
  have o: "CreateTUN_opened kernel_ifhead_fails dragonfly_amd64 ''wg0'' 1420 3
        [SysInterfaceByName ''wg0'', SysOpenFile ''/dev/tun0'' (Inr 3)] =
      Inr (Inl (IoctlFailed 22),
          [SysInterfaceByName ''wg0'', SysOpenFile ''/dev/tun0'' (Inr 3), SysTunName 3,
           SysIoctl 3 TUNSIFHEAD])"
    by (simp add: CreateTUN_opened_def kernel_ifhead_fails_def kernel_ok_def renamed_def Let_def)
  have c: "CreateTUN kernel_ifhead_fails dragonfly_amd64 ''wg0'' 1420 [] =
     Inr (Inl (IoctlFailed 22),
          [SysInterfaceByName ''wg0'', SysOpenFile ''/dev/tun0'' (Inr 3), SysTunName 3,
           SysIoctl 3 TUNSIFHEAD])"
    using l by (simp add: CreateTUN_def i p o)
  have d: "left_open [SysInterfaceByName ''wg0'', SysOpenFile ''/dev/tun0'' (Inr 3), SysTunName 3,
              SysIoctl 3 TUNSIFHEAD] 3"
    by (simp add: left_open_def)
  show ?thesis using c d by blast
qed

text \<open>
  The failing steps of \<open>CreateTUN\<close> after the open, one by one. A failed name
  discovery, a failed rename and a failed \<open>CreateTUNFromFile\<close> end with the \<open>Close\<close> of the
  descriptor; the two ioctls between them end without, on every kernel, and leave the
  descriptor open.
\<close>

lemma CreateTUN_opened_tunName_fails:
  "k_tunName k tr f = Inl err \<Longrightarrow>
   CreateTUN_opened k pf name mtu f tr = Inr (Inl err, tr @ [SysTunName f, SysFileClose f])"
  by (simp add: CreateTUN_opened_def)

lemma CreateTUN_opened_ifhead_fails:
  "k_tunName k tr f = Inr assigned \<Longrightarrow>
   k_ioctl k (tr @ [SysTunName f]) f TUNSIFHEAD = errno \<Longrightarrow> errno \<noteq> 0 \<Longrightarrow>
   CreateTUN_opened k pf name mtu f tr =
     Inr (Inl (IoctlFailed errno), tr @ [SysTunName f, SysIoctl f TUNSIFHEAD])"
  by (simp add: CreateTUN_opened_def Let_def)

lemma CreateTUN_opened_ifmode_fails:
  "k_tunName k tr f = Inr assigned \<Longrightarrow>
   k_ioctl k (tr @ [SysTunName f]) f TUNSIFHEAD = 0 \<Longrightarrow>
   k_ioctl k (tr @ [SysTunName f, SysIoctl f TUNSIFHEAD]) f TUNSIFMODE = errno \<Longrightarrow>
   errno \<noteq> 0 \<Longrightarrow>
   CreateTUN_opened k pf name mtu f tr =
     Inr (Inl (IoctlFailed errno),
          tr @ [SysTunName f, SysIoctl f TUNSIFHEAD, SysIoctl f TUNSIFMODE])"
  by (simp add: CreateTUN_opened_def Let_def)

lemma CreateTUN_opened_rename_fails:
  "k_tunName k tr f = Inr assigned \<Longrightarrow>
   k_ioctl k (tr @ [SysTunName f]) f TUNSIFHEAD = 0 \<Longrightarrow>
   k_ioctl k (tr @ [SysTunName f, SysIoctl f TUNSIFHEAD]) f TUNSIFMODE = 0 \<Longrightarrow>
   renameTun k pf assigned name
       (tr @ [SysTunName f, SysIoctl f TUNSIFHEAD, SysIoctl f TUNSIFMODE]) = (Some err, tr') \<Longrightarrow>
   CreateTUN_opened k pf name mtu f tr = Inr (Inl err, tr' @ [SysFileClose f])"
  by (simp add: CreateTUN_opened_def Let_def)

lemma CreateTUN_opened_FromFile_fails:
  "k_tunName k tr f = Inr assigned \<Longrightarrow>
   k_ioctl k (tr @ [SysTunName f]) f TUNSIFHEAD = 0 \<Longrightarrow>
   k_ioctl k (tr @ [SysTunName f, SysIoctl f TUNSIFHEAD]) f TUNSIFMODE = 0 \<Longrightarrow>
   renameTun k pf assigned name
       (tr @ [SysTunName f, SysIoctl f TUNSIFHEAD, SysIoctl f TUNSIFMODE]) = (None, tr1) \<Longrightarrow>
   CreateTUNFromFile k pf f mtu tr1 = Inr (Inl err, tr') \<Longrightarrow>
   CreateTUN_opened k pf name mtu f tr = Inr (Inl err, tr' @ [SysFileClose f])"
  by (simp add: CreateTUN_opened_def Let_def)

lemma left_open_closed: "\<not> left_open (tr @ [SysFileClose f]) f"
  by (simp add: left_open_def)

lemma left_open_after_ioctl:
  "left_open (tr @ [SysOpenFile path (Inr f), SysTunName f, SysIoctl f TUNSIFHEAD]) f"
  "left_open (tr @ [SysOpenFile path (Inr f), SysTunName f, SysIoctl f TUNSIFHEAD,
                    SysIoctl f TUNSIFMODE]) f"
  by (simp_all add: left_open_def)

text \<open>
  C1 fails on the code. The handle is the one \<open>CreateTUN\<close> returns for \<open>wg0\<close>: named
  \<open>wg0\<close>, originally \<open>tun0\<close>, with its route socket 5. On \<open>Close\<close> the rename back to
  \<open>tun0\<close> fails and nothing else does: the rename is asked for before the descriptor is
  closed and the descriptor is closed all the same, but \<open>Close\<close> returns no error. The
  rename's error was held in \<open>err4\<close>, which the result of closing the route socket
  then replaced.
\<close>

theorem Close_loses_rename_error:
  "CreateTUN kernel_restore_fails dragonfly_amd64 ''wg0'' 1420 [] =
     Inr (Inr tun_wg0, created_log) \<and>
   renameTun kernel_restore_fails dragonfly_amd64 ''wg0'' ''tun0'' created_log =
     (Some (RenameFailed ''wg0'' ''tun0'' 16),
      created_log @ [SysSocket ControlSocket (Inr 4),
                     SysIoctl 4 (SIOCSIFNAME ''wg0'' ''tun0''), SysClose 4]) \<and>
   Close kernel_restore_fails dragonfly_amd64 tun_wg0 created_log =
     Inr (None, tun_wg0\<lparr>tun_routeSocket := - 1\<rparr>,
          created_log @
          [SysSocket ControlSocket (Inr 4), SysIoctl 4 (SIOCSIFNAME ''wg0'' ''tun0''),
           SysClose 4, SysFileClose 3, SysCancel 3, SysShutdown 5, SysClose 5])"
proof -
  have p: "probe kernel_restore_fails 0 [SysInterfaceByName ''wg0''] =
      (Some 3, [SysInterfaceByName ''wg0'', SysOpenFile ''/dev/tun0'' (Inr 3)])"
    by (simp add: probe_tun0 kernel_restore_fails_def kernel_ok_def)
  have l: "\<not> int (length ''wg0'') > int (IFNAMSIZ dragonfly_amd64) - 1"
    by (simp add: dragonfly_amd64_def)
  have i: "k_InterfaceByName kernel_restore_fails [] ''wg0'' =
      Inl (LibError ''no such network interface'')"
    by (simp add: kernel_restore_fails_def kernel_ok_def renamed_def)
  have o: "CreateTUN_opened kernel_restore_fails dragonfly_amd64 ''wg0'' 1420 3
        [SysInterfaceByName ''wg0'', SysOpenFile ''/dev/tun0'' (Inr 3)] =
      Inr (Inr tun_wg0, created_log)"
    by (simp add: CreateTUN_opened_def CreateTUNFromFile_def Name_def setMTU_def renameTun_def
          kernel_restore_fails_def kernel_ok_def dragonfly_amd64_def Let_def renamed_def
          tun_wg0_def created_log_def)
  have c: "CreateTUN kernel_restore_fails dragonfly_amd64 ''wg0'' 1420 [] =
     Inr (Inr tun_wg0, created_log)"
    using l by (simp add: CreateTUN_def i p o)
  have r: "renameTun kernel_restore_fails dragonfly_amd64 ''wg0'' ''tun0'' created_log =
     (Some (RenameFailed ''wg0'' ''tun0'' 16),
      created_log @ [SysSocket ControlSocket (Inr 4),
                     SysIoctl 4 (SIOCSIFNAME ''wg0'' ''tun0''), SysClose 4])"
    by (simp add: renameTun_def kernel_restore_fails_def kernel_ok_def dragonfly_amd64_def
        Let_def)
  have n: "tun_name tun_wg0 \<noteq> tun_origName tun_wg0" "tun_rwcancel tun_wg0 = Some 3"
    "tun_routeSocket tun_wg0 = 5" "tun_fd tun_wg0 = 3"
    "tun_name tun_wg0 = ''wg0''" "tun_origName tun_wg0 = ''tun0''"
    by (simp_all add: tun_wg0_def)
  have k: "k_FileClose kernel_restore_fails = (\<lambda>tr f. None)"
    "k_Cancel kernel_restore_fails = (\<lambda>tr f. None)"
    "k_Close kernel_restore_fails = (\<lambda>tr f. None)"
    by (simp_all add: kernel_restore_fails_def kernel_ok_def)
  have x: "Close kernel_restore_fails dragonfly_amd64 tun_wg0 created_log =
     Inr (None, tun_wg0\<lparr>tun_routeSocket := - 1\<rparr>,
          created_log @
          [SysSocket ControlSocket (Inr 4), SysIoctl 4 (SIOCSIFNAME ''wg0'' ''tun0''),
           SysClose 4, SysFileClose 3, SysCancel 3, SysShutdown 5, SysClose 5])"
    by (simp add: Close_def n r k close_result_def Let_def)
  show ?thesis using c r x by blast
qed

text \<open>
  What \<open>Close\<close> returns on a handle with a route socket: the error of the cancellation,
  else that of closing the descriptor, else that of closing the route socket. The
  rename's error is not among them.
\<close>

lemma Close_route_socket_result:
  "tun_rwcancel tun = Some rw \<Longrightarrow> tun_routeSocket tun \<noteq> - 1 \<Longrightarrow>
   \<exists>tr1 tr2 tr3 tr'.
     Close k pf tun tr =
       Inr (close_result (k_Cancel k tr2 rw) (k_FileClose k tr1 (tun_fd tun))
              (k_Close k tr3 (tun_routeSocket tun)),
            tun\<lparr>tun_routeSocket := - 1\<rparr>, tr')"
  by (auto simp: Close_def Let_def split: prod.splits)

text \<open>
  On a handle without route socket, whose event channel is open, the order of the
  spec holds: cancellation, then descriptor, then rename.
\<close>

lemma Close_no_route_socket_result:
  "tun_rwcancel tun = Some rw \<Longrightarrow> tun_routeSocket tun = - 1 \<Longrightarrow> tun_events tun = Some False \<Longrightarrow>
   tun_name tun \<noteq> tun_origName tun \<Longrightarrow>
   renameTun k pf (tun_name tun) (tun_origName tun) tr = (err4, tr1) \<Longrightarrow>
   Close k pf tun tr =
     Inr (close_result (k_Cancel k (tr1 @ [SysFileClose (tun_fd tun)]) rw)
            (k_FileClose k tr1 (tun_fd tun)) err4,
          tun\<lparr>tun_events := Some True\<rparr>,
          tr1 @ [SysFileClose (tun_fd tun), SysCancel rw, CloseEvents])"
  by (simp add: Close_def Let_def)

end
